theory Spec2Isabelle
  imports Main "HOL-Library.Sublist"
begin

section \<open>Python values, failures and the simulator's state\<close>

text \<open>
  The simulated value stack of \<^verbatim>\<open>cyberbrain/value_stack.py\<close> is a Python list whose
  elements are dynamically typed. The handlers test values with \<^verbatim>\<open>is _placeholder\<close> and
  \<^verbatim>\<open>isinstance(value, list)\<close>, so the model keeps the dynamic types: a value is
  \<^verbatim>\<open>None\<close>, a string, or a list of values. The top of the stack is the last
  element of the list, as in the source (\<^verbatim>\<open>self.stack[-1]\<close>, \<^verbatim>\<open>append\<close>,
  \<^verbatim>\<open>list.pop()\<close>).
\<close>

datatype pyval = PNone | PStr string | PList "pyval list"

text \<open>
  The exceptions that the module can raise or construct. \<open>IndexError\<close> is raised by list
  indexing and \<^verbatim>\<open>list.pop()\<close>; \<open>TypeError\<close> by iterating, measuring or subscripting
  \<^verbatim>\<open>None\<close> and by arithmetic on \<^verbatim>\<open>None\<close>; \<open>ValueError\<close> by tuple unpacking of
  the wrong length; \<open>AssertionError\<close> by \<^verbatim>\<open>assert\<close>; \<open>AttributeError\<close> by
  \<^verbatim>\<open>getattr\<close> on a name the class does not define; \<open>ValueStackException\<close> is the
  module's own exception class.
\<close>

datatype py_error =
    IndexError
  | TypeError
  | ValueError
  | AssertionError
  | AttributeError string
  | ValueStackException string

text \<open>
  Modelled from the spec: the class \<^verbatim>\<open>Mutation\<close> is imported from \<^verbatim>\<open>.basis\<close>, which
  is not part of the sources at hand; the spec gives it as the record
  \<^verbatim>\<open>{ target, sources: set<Label> }\<close>, built with the keyword arguments \<^verbatim>\<open>target\<close> and
  \<^verbatim>\<open>sources\<close>.
\<close>

record Mutation =
  target :: pyval
  sources :: "pyval set"

text \<open>
  The fields of \<^verbatim>\<open>dis.Instruction\<close> that the handlers read. \<^verbatim>\<open>arg\<close> is an integer or
  \<^verbatim>\<open>None\<close>; \<^verbatim>\<open>argrepr\<close> is always a string.
\<close>

record Instruction =
  opname :: string
  arg :: "int option"
  argval :: pyval
  argrepr :: string

record ValueStack =
  stack :: "pyval list"
  extended_args :: "int option list"

text \<open>\<^verbatim>\<open>ValueStack.__init__\<close>\<close>

definition ValueStack_init :: ValueStack where
  "ValueStack_init = \<lparr>stack = [], extended_args = []\<rparr>"

text \<open>\<^verbatim>\<open>_placeholder = None\<close>\<close>

definition placeholder :: pyval where
  "placeholder = PNone"

subsection \<open>Methods as state transformers that may raise\<close>

text \<open>
  A method of the object takes the state and returns the updated state together with
  either its return value or the exception it raised. An exception keeps the state as
  it was when it was raised: Python does not roll back the mutations made before.
\<close>

type_synonym 'a py = "ValueStack \<Rightarrow> (py_error + 'a) \<times> ValueStack"

definition py_return :: "'a \<Rightarrow> 'a py" where
  "py_return a vs = (Inr a, vs)"

definition py_raise :: "py_error \<Rightarrow> 'a py" where
  "py_raise e vs = (Inl e, vs)"

definition py_lift :: "py_error + 'a \<Rightarrow> 'a py" where
  "py_lift r vs = (r, vs)"

definition py_bind :: "'a py \<Rightarrow> ('a \<Rightarrow> 'b py) \<Rightarrow> 'b py" where
  "py_bind m f vs = (case m vs of (Inl e, vs') \<Rightarrow> (Inl e, vs') | (Inr a, vs') \<Rightarrow> f a vs')"

text \<open>\<^verbatim>\<open>try: body  except IndexError: handler\<close>. Every other exception passes through.\<close>

definition except_IndexError :: "'a py \<Rightarrow> 'a py \<Rightarrow> 'a py" where
  "except_IndexError body handler vs =
     (case body vs of
        (Inl e, vs') \<Rightarrow> (if e = IndexError then handler vs' else (Inl e, vs'))
      | (Inr a, vs') \<Rightarrow> (Inr a, vs'))"

definition py_assert :: "bool \<Rightarrow> unit py" where
  "py_assert b = (if b then py_return () else py_raise AssertionError)"

subsection \<open>The built-in operations the module uses\<close>

text \<open>\<^verbatim>\<open>xs[i]\<close> on a list, with Python's negative indices.\<close>

definition list_getitem :: "'a list \<Rightarrow> int \<Rightarrow> py_error + 'a" where
  "list_getitem xs i =
     (let j = (if i < 0 then int (length xs) + i else i)
      in if j < 0 \<or> int (length xs) \<le> j then Inl IndexError else Inr (xs ! nat j))"

text \<open>\<^verbatim>\<open>xs.pop()\<close>: the last element and the list without it.\<close>

definition list_pop :: "'a list \<Rightarrow> py_error + ('a \<times> 'a list)" where
  "list_pop xs = (if xs = [] then Inl IndexError else Inr (last xs, butlast xs))"

text \<open>Iteration over a value, as \<^verbatim>\<open>list.extend\<close>, \<^verbatim>\<open>set(...)\<close> and tuple unpacking do.\<close>

definition py_iter :: "pyval \<Rightarrow> py_error + pyval list" where
  "py_iter v =
     (case v of
        PNone \<Rightarrow> Inl TypeError
      | PStr s \<Rightarrow> Inr (map (\<lambda>c. PStr [c]) s)
      | PList xs \<Rightarrow> Inr xs)"

definition isinstance_list :: "pyval \<Rightarrow> bool" where
  "isinstance_list v = (case v of PList _ \<Rightarrow> True | _ \<Rightarrow> False)"

text \<open>\<^verbatim>\<open>set(v)\<close>: the elements must be hashable, and a list is not.\<close>

definition py_set :: "pyval \<Rightarrow> py_error + pyval set" where
  "py_set v =
     (case py_iter v of
        Inl e \<Rightarrow> Inl e
      | Inr xs \<Rightarrow> (if list_ex isinstance_list xs then Inl TypeError else Inr (set xs)))"

definition py_len :: "pyval \<Rightarrow> py_error + int" where
  "py_len v =
     (case v of
        PNone \<Rightarrow> Inl TypeError
      | PStr s \<Rightarrow> Inr (int (length s))
      | PList xs \<Rightarrow> Inr (int (length xs)))"

text \<open>\<^verbatim>\<open>v[i]\<close> on a value.\<close>

definition py_getitem :: "pyval \<Rightarrow> int \<Rightarrow> py_error + pyval" where
  "py_getitem v i =
     (case v of
        PNone \<Rightarrow> Inl TypeError
      | PStr s \<Rightarrow> (case list_getitem s i of Inl e \<Rightarrow> Inl e | Inr c \<Rightarrow> Inr (PStr [c]))
      | PList xs \<Rightarrow> list_getitem xs i)"

text \<open>\<^verbatim>\<open>a, b = v\<close>\<close>

definition unpack2 :: "pyval \<Rightarrow> py_error + (pyval \<times> pyval)" where
  "unpack2 v =
     (case py_iter v of
        Inl e \<Rightarrow> Inl e
      | Inr xs \<Rightarrow> (case xs of [a, b] \<Rightarrow> Inr (a, b) | _ \<Rightarrow> Inl ValueError))"

text \<open>\<^verbatim>\<open>range(n)\<close>: the number of iterations; \<^verbatim>\<open>range(None)\<close> is a \<open>TypeError\<close>.\<close>

definition py_range :: "int option \<Rightarrow> py_error + nat" where
  "py_range n = (case n of None \<Rightarrow> Inl TypeError | Some k \<Rightarrow> Inr (nat k))"

text \<open>\<^verbatim>\<open>sum(xs)\<close> starts from 0 and adds from the left; adding \<^verbatim>\<open>None\<close> is a \<open>TypeError\<close>.\<close>

fun py_sum_from :: "int \<Rightarrow> int option list \<Rightarrow> py_error + int" where
  "py_sum_from acc [] = Inr acc"
| "py_sum_from acc (None # xs) = Inl TypeError"
| "py_sum_from acc (Some x # xs) = py_sum_from (acc + x) xs"

definition py_sum :: "int option list \<Rightarrow> py_error + int" where
  "py_sum xs = py_sum_from 0 xs"

text \<open>\<^verbatim>\<open>k + a\<close> and \<^verbatim>\<open>a * k\<close> for an integer \<open>k\<close> and an operand that may be \<^verbatim>\<open>None\<close>.\<close>

definition py_add :: "int \<Rightarrow> int option \<Rightarrow> py_error + int" where
  "py_add k a = (case a of None \<Rightarrow> Inl TypeError | Some x \<Rightarrow> Inr (k + x))"

definition py_mul :: "int option \<Rightarrow> int \<Rightarrow> py_error + int" where
  "py_mul a k = (case a of None \<Rightarrow> Inl TypeError | Some x \<Rightarrow> Inr (x * k))"

section \<open>The stack primitives\<close>

text \<open>
  \<^verbatim>\<open>tos\<close> and \<^verbatim>\<open>tos1\<close>: the \<^verbatim>\<open>except IndexError\<close> clause builds a
  \<open>ValueStackException\<close> and drops it (there is no \<^verbatim>\<open>raise\<close>), so the property falls
  off its end and returns \<^verbatim>\<open>None\<close>.
\<close>

definition tos :: "pyval py" where
  "tos =
     except_IndexError
       (\<lambda>vs. (list_getitem (stack vs) (- 1), vs))
       (let unused = ValueStackException ''Value stack should have tos but is empty.''
        in py_return PNone)"

definition tos1 :: "pyval py" where
  "tos1 =
     except_IndexError
       (\<lambda>vs. (list_getitem (stack vs) (- 2), vs))
       (let unused = ValueStackException ''Value stack should have tos1 but does not.''
        in py_return PNone)"

text \<open>\<^verbatim>\<open>_push\<close>\<close>

definition push :: "pyval \<Rightarrow> unit py" where
  "push val vs =
     (let val' = (if val = placeholder then PList []
                  else if \<not> isinstance_list val then PList [val]
                  else val)
      in (Inr (), vs\<lparr>stack := stack vs @ [val']\<rparr>))"

text \<open>\<^verbatim>\<open>self.stack.pop()\<close>\<close>

definition stack_pop :: "pyval py" where
  "stack_pop vs =
     (case list_pop (stack vs) of
        Inl e \<Rightarrow> (Inl e, vs)
      | Inr (v, st) \<Rightarrow> (Inr v, vs\<lparr>stack := st\<rparr>))"

text \<open>\<^verbatim>\<open>[self.stack.pop() for _ in range(n)]\<close>: the elements popped before a failure stay popped.\<close>

primrec pop_comprehension :: "nat \<Rightarrow> pyval list py" where
  "pop_comprehension 0 = py_return []"
| "pop_comprehension (Suc k) =
     py_bind stack_pop (\<lambda>v. py_bind (pop_comprehension k) (\<lambda>rest. py_return (v # rest)))"

text \<open>
  \<^verbatim>\<open>_pop(n=1)\<close>. As in \<^verbatim>\<open>tos\<close>, the handler of \<open>IndexError\<close> builds the exception
  without raising it, and the method returns \<^verbatim>\<open>None\<close>.
\<close>

definition pop :: "int \<Rightarrow> pyval py" where
  "pop n =
     except_IndexError
       (if n = 1 then stack_pop
        else py_bind (pop_comprehension (nat n)) (\<lambda>xs. py_return (PList xs)))
       (let unused = ValueStackException ''Value stack should have tos but is empty.''
        in py_return PNone)"

text \<open>\<^verbatim>\<open>_replace_tos\<close>\<close>

definition replace_tos :: "pyval \<Rightarrow> unit py" where
  "replace_tos new_value = py_bind (pop 1) (\<lambda>_. push new_value)"

text \<open>
  \<^verbatim>\<open>_pop_n_push_one\<close>. The loop body is \<^verbatim>\<open>elements.extend(self._pop())\<close>; the count
  is evaluated by \<^verbatim>\<open>range(n)\<close> before the first iteration.
\<close>

primrec extend_loop :: "nat \<Rightarrow> pyval list \<Rightarrow> pyval list py" where
  "extend_loop 0 elements = py_return elements"
| "extend_loop (Suc k) elements =
     py_bind (pop 1) (\<lambda>p.
     py_bind (py_lift (py_iter p)) (\<lambda>xs.
     extend_loop k (elements @ xs)))"

definition pop_n_push_one :: "int option \<Rightarrow> unit py" where
  "pop_n_push_one n =
     py_bind (py_lift (py_range n)) (\<lambda>k.
     py_bind (extend_loop k []) (\<lambda>elements.
     push (PList elements)))"

text \<open>\<^verbatim>\<open>_pop_one_push_n\<close>: the pop comes first, then \<^verbatim>\<open>range(n)\<close>, then the pushes.\<close>

primrec push_loop :: "nat \<Rightarrow> pyval \<Rightarrow> unit py" where
  "push_loop 0 t = py_return ()"
| "push_loop (Suc k) t = py_bind (push t) (\<lambda>_. push_loop k t)"

definition pop_one_push_n :: "int option \<Rightarrow> unit py" where
  "pop_one_push_n n =
     py_bind (pop 1) (\<lambda>t.
     py_bind (py_lift (py_range n)) (\<lambda>k.
     push_loop k t))"

section \<open>The handlers\<close>

type_synonym handler = "Instruction \<Rightarrow> Mutation option py"

definition POP_TOP_handler :: handler where
  "POP_TOP_handler instr = py_bind (pop 1) (\<lambda>_. py_return None)"

definition ROT_TWO_handler :: handler where
  "ROT_TWO_handler instr =
     py_bind (pop 2) (\<lambda>p.
     py_bind (py_lift (unpack2 p)) (\<lambda>(t, t1).
     py_bind (push t) (\<lambda>_.
     py_bind (push t1) (\<lambda>_.
     py_return None))))"

definition DUP_TOP_handler :: handler where
  "DUP_TOP_handler instr = py_bind tos (\<lambda>t. py_bind (push t) (\<lambda>_. py_return None))"

definition UNARY_POSITIVE_handler :: handler where
  "UNARY_POSITIVE_handler instr = py_return None"

definition UNARY_NEGATIVE_handler :: handler where
  "UNARY_NEGATIVE_handler instr = py_return None"

definition UNARY_NOT_handler :: handler where
  "UNARY_NOT_handler instr = py_return None"

definition UNARY_INVERT_handler :: handler where
  "UNARY_INVERT_handler instr = py_return None"

definition BINARY_operation_handler :: handler where
  "BINARY_operation_handler instr = py_bind (pop_n_push_one (Some 2)) (\<lambda>_. py_return None)"

definition RETURN_VALUE_handler :: handler where
  "RETURN_VALUE_handler instr = py_bind (pop 1) (\<lambda>_. py_return None)"

definition STORE_NAME_handler :: handler where
  "STORE_NAME_handler instr =
     py_bind tos (\<lambda>t.
     py_bind (py_lift (py_set t)) (\<lambda>src.
     let mutation = \<lparr>target = argval instr, sources = src\<rparr> in
     py_bind (pop 1) (\<lambda>_.
     py_return (Some mutation))))"

definition UNPACK_SEQUENCE_handler :: handler where
  "UNPACK_SEQUENCE_handler instr = py_bind (pop_one_push_n (arg instr)) (\<lambda>_. py_return None)"

text \<open>
  \<^verbatim>\<open>_UNPACK_EX_handler\<close>: the assertion on the number of stored extended arguments
  comes first (assertions are taken as enabled).
\<close>

definition UNPACK_EX_handler :: handler where
  "UNPACK_EX_handler instr =
     (\<lambda>vs.
       (py_bind (py_assert (length (extended_args vs) \<le> 1)) (\<lambda>_.
        py_bind (py_lift (py_sum (extended_args vs))) (\<lambda>s.
        py_bind (py_lift (py_add (s + 1) (arg instr))) (\<lambda>number_of_receivers.
        py_bind (pop_one_push_n (Some number_of_receivers)) (\<lambda>_.
        (\<lambda>vs'. (Inr None, vs'\<lparr>extended_args := []\<rparr>))))))) vs)"

definition STORE_ATTR_handler :: handler where
  "STORE_ATTR_handler instr =
     py_bind tos (\<lambda>t.
     py_bind (py_lift (py_len t)) (\<lambda>n.
     py_bind (py_assert (n = 1)) (\<lambda>_.
     py_bind tos (\<lambda>t'.
     py_bind (py_lift (py_getitem t' 0)) (\<lambda>tgt.
     py_bind tos1 (\<lambda>t1.
     py_bind (py_lift (py_set t1)) (\<lambda>src.
     let mutation = \<lparr>target = tgt, sources = src\<rparr> in
     py_return (Some mutation))))))))"

definition LOAD_CONST_handler :: handler where
  "LOAD_CONST_handler instr = py_bind (push placeholder) (\<lambda>_. py_return None)"

definition LOAD_NAME_handler :: handler where
  "LOAD_NAME_handler instr = py_bind (push (PStr (argrepr instr))) (\<lambda>_. py_return None)"

definition BUILD_TUPLE_handler :: handler where
  "BUILD_TUPLE_handler instr = py_bind (pop_n_push_one (arg instr)) (\<lambda>_. py_return None)"

definition BUILD_LIST_handler :: handler where
  "BUILD_LIST_handler instr = py_bind (BUILD_TUPLE_handler instr) (\<lambda>_. py_return None)"

definition BUILD_SET_handler :: handler where
  "BUILD_SET_handler instr = py_bind (BUILD_TUPLE_handler instr) (\<lambda>_. py_return None)"

definition BUILD_MAP_handler :: handler where
  "BUILD_MAP_handler instr =
     py_bind (py_lift (py_mul (arg instr) 2)) (\<lambda>n.
     py_bind (pop_n_push_one (Some n)) (\<lambda>_. py_return None))"

definition BUILD_CONST_KEY_MAP_handler :: handler where
  "BUILD_CONST_KEY_MAP_handler instr =
     py_bind (py_lift (py_add 1 (arg instr))) (\<lambda>n.
     py_bind (pop_n_push_one (Some n)) (\<lambda>_. py_return None))"

text \<open>\<^verbatim>\<open>_LOAD_ATTR_handler\<close>: the body is the docstring alone.\<close>

definition LOAD_ATTR_handler :: handler where
  "LOAD_ATTR_handler instr = py_return None"

definition LOAD_FAST_handler :: handler where
  "LOAD_FAST_handler instr = py_bind (push (PStr (argrepr instr))) (\<lambda>_. py_return None)"

definition STORE_FAST_handler :: handler where
  "STORE_FAST_handler instr = STORE_NAME_handler instr"

definition LOAD_METHOD_handler :: handler where
  "LOAD_METHOD_handler instr = py_bind (pop 1) (\<lambda>_. py_return None)"

definition CALL_METHOD_handler :: handler where
  "CALL_METHOD_handler instr = py_return None"

definition EXTENDED_ARG_handler :: handler where
  "EXTENDED_ARG_handler instr =
     (\<lambda>vs. (Inr None, vs\<lparr>extended_args := extended_args vs @ [arg instr]\<rparr>))"

section \<open>Dispatch\<close>

text \<open>
  \<^verbatim>\<open>getattr(self, name)\<close> for a name of the form \<^verbatim>\<open>_..._handler\<close>: the class defines
  exactly these methods with such a name; any other name is an \<open>AttributeError\<close>.
\<close>

definition handler_methods :: "(string \<times> handler) list" where
  "handler_methods =
     [(''_POP_TOP_handler'', POP_TOP_handler),
      (''_ROT_TWO_handler'', ROT_TWO_handler),
      (''_DUP_TOP_handler'', DUP_TOP_handler),
      (''_UNARY_POSITIVE_handler'', UNARY_POSITIVE_handler),
      (''_UNARY_NEGATIVE_handler'', UNARY_NEGATIVE_handler),
      (''_UNARY_NOT_handler'', UNARY_NOT_handler),
      (''_UNARY_INVERT_handler'', UNARY_INVERT_handler),
      (''_BINARY_operation_handler'', BINARY_operation_handler),
      (''_RETURN_VALUE_handler'', RETURN_VALUE_handler),
      (''_STORE_NAME_handler'', STORE_NAME_handler),
      (''_UNPACK_SEQUENCE_handler'', UNPACK_SEQUENCE_handler),
      (''_UNPACK_EX_handler'', UNPACK_EX_handler),
      (''_STORE_ATTR_handler'', STORE_ATTR_handler),
      (''_LOAD_CONST_handler'', LOAD_CONST_handler),
      (''_LOAD_NAME_handler'', LOAD_NAME_handler),
      (''_BUILD_TUPLE_handler'', BUILD_TUPLE_handler),
      (''_BUILD_LIST_handler'', BUILD_LIST_handler),
      (''_BUILD_SET_handler'', BUILD_SET_handler),
      (''_BUILD_MAP_handler'', BUILD_MAP_handler),
      (''_BUILD_CONST_KEY_MAP_handler'', BUILD_CONST_KEY_MAP_handler),
      (''_LOAD_ATTR_handler'', LOAD_ATTR_handler),
      (''_LOAD_FAST_handler'', LOAD_FAST_handler),
      (''_STORE_FAST_handler'', STORE_FAST_handler),
      (''_LOAD_METHOD_handler'', LOAD_METHOD_handler),
      (''_CALL_METHOD_handler'', CALL_METHOD_handler),
      (''_EXTENDED_ARG_handler'', EXTENDED_ARG_handler)]"

definition getattr_handler :: "string \<Rightarrow> py_error + handler" where
  "getattr_handler name =
     (case map_of handler_methods name of
        None \<Rightarrow> Inl (AttributeError name)
      | Some h \<Rightarrow> Inr h)"

text \<open>
  \<^verbatim>\<open>emit_mutation\<close>. For an opcode that starts with \<^verbatim>\<open>BINARY_\<close> the shared handler runs
  and the bare \<^verbatim>\<open>return\<close> gives \<^verbatim>\<open>None\<close>; otherwise the handler is looked up under the
  name \<^verbatim>\<open>f"_{instr.opname}_handler"\<close>.
\<close>

definition emit_mutation :: "Instruction \<Rightarrow> Mutation option py" where
  "emit_mutation instr =
     (if prefix ''BINARY_'' (opname instr)
      then py_bind (BINARY_operation_handler instr) (\<lambda>_. py_return None)
      else py_bind (py_lift (getattr_handler (''_'' @ opname instr @ ''_handler'')))
             (\<lambda>h. h instr))"

text \<open>
  The caller feeds the instructions of one frame in order. \<open>emit_mutations\<close> is that
  loop when the first exception ends it (it returns the results so far collected, or the
  exception); \<open>feed\<close> is the state after the whole sequence for a caller that catches
  every exception and goes on.
\<close>

fun emit_mutations :: "Instruction list \<Rightarrow> Mutation option list py" where
  "emit_mutations [] vs = (Inr [], vs)"
| "emit_mutations (i # is) vs =
     (case emit_mutation i vs of
        (Inl e, vs') \<Rightarrow> (Inl e, vs')
      | (Inr m, vs') \<Rightarrow>
          (case emit_mutations is vs' of
             (Inl e, vs'') \<Rightarrow> (Inl e, vs'')
           | (Inr ms, vs'') \<Rightarrow> (Inr (m # ms), vs'')))"

fun feed :: "Instruction list \<Rightarrow> ValueStack \<Rightarrow> ValueStack" where
  "feed [] vs = vs"
| "feed (i # is) vs = feed is (snd (emit_mutation i vs))"

text \<open>Instructions as a decoder hands them over, for the examples.\<close>

definition mk_instr :: "string \<Rightarrow> int option \<Rightarrow> string \<Rightarrow> Instruction" where
  "mk_instr name a repr = \<lparr>opname = name, arg = a, argval = PStr repr, argrepr = repr\<rparr>"

section \<open>Vocabulary of the statements\<close>

text \<open>
  The opcode names \<open>X\<close> for which the class defines a method \<^verbatim>\<open>_X_handler\<close>, and the
  attribute name that \<^verbatim>\<open>emit_mutation\<close> builds from an opcode name.
\<close>

definition registered_opnames :: "string list" where
  "registered_opnames =
     [''POP_TOP'', ''ROT_TWO'', ''DUP_TOP'', ''UNARY_POSITIVE'', ''UNARY_NEGATIVE'',
      ''UNARY_NOT'', ''UNARY_INVERT'', ''BINARY_operation'', ''RETURN_VALUE'', ''STORE_NAME'',
      ''UNPACK_SEQUENCE'', ''UNPACK_EX'', ''STORE_ATTR'', ''LOAD_CONST'', ''LOAD_NAME'',
      ''BUILD_TUPLE'', ''BUILD_LIST'', ''BUILD_SET'', ''BUILD_MAP'', ''BUILD_CONST_KEY_MAP'',
      ''LOAD_ATTR'', ''LOAD_FAST'', ''STORE_FAST'', ''LOAD_METHOD'', ''CALL_METHOD'',
      ''EXTENDED_ARG'']"

definition handler_name :: "string \<Rightarrow> string" where
  "handler_name op = ''_'' @ op @ ''_handler''"

text \<open>
  A provenance label is a string; a slot is a list of labels; the stack is well formed when
  every element is a slot. Neither \<^verbatim>\<open>None\<close> (the placeholder) nor a bare string is a
  slot, and \<^verbatim>\<open>None\<close> is not a label.
\<close>

definition is_label :: "pyval \<Rightarrow> bool" where
  "is_label v = (case v of PStr _ \<Rightarrow> True | _ \<Rightarrow> False)"

definition is_slot :: "pyval \<Rightarrow> bool" where
  "is_slot v = (case v of PList xs \<Rightarrow> list_all is_label xs | _ \<Rightarrow> False)"

definition stack_inv :: "ValueStack \<Rightarrow> bool" where
  "stack_inv vs = list_all is_slot (stack vs)"

text \<open>What \<^verbatim>\<open>tos\<close>, \<^verbatim>\<open>tos1\<close> and \<^verbatim>\<open>_pop\<close> can return on a well-formed stack.\<close>

definition slot_or_none :: "pyval \<Rightarrow> bool" where
  "slot_or_none v = (v = PNone \<or> is_slot v)"

definition slots_or_none :: "pyval \<Rightarrow> bool" where
  "slots_or_none v = (v = PNone \<or> (\<exists>xs. v = PList xs \<and> list_all is_slot xs))"

text \<open>
  \<open>keeps R m\<close>: run from a well-formed stack, the method \<open>m\<close> leaves a well-formed
  stack, whether it returns or raises, and a returned value satisfies \<open>R\<close>.
\<close>

definition keeps :: "('a \<Rightarrow> bool) \<Rightarrow> 'a py \<Rightarrow> bool" where
  "keeps R m =
     (\<forall>vs. stack_inv vs \<longrightarrow>
        stack_inv (snd (m vs)) \<and> (case fst (m vs) of Inl e \<Rightarrow> True | Inr a \<Rightarrow> R a))"

text \<open>
  \<open>never_underflow_error m\<close>: whatever the state, the method \<open>m\<close> does not raise the
  module's \<open>ValueStackException\<close>.
\<close>

definition never_underflow_error :: "'a py \<Rightarrow> bool" where
  "never_underflow_error m = (\<forall>vs msg. fst (m vs) \<noteq> Inl (ValueStackException msg))"

section \<open>The primitives in closed form\<close>

lemmas py_defs = py_bind_def py_return_def py_raise_def py_lift_def py_assert_def except_IndexError_def

lemma tos_eq: "tos vs = (Inr (if stack vs = [] then PNone else last (stack vs)), vs)"
  by (cases "stack vs" rule: rev_cases) (simp_all add: tos_def py_defs list_getitem_def nth_append)

lemma tos1_eq:
  "tos1 vs = (Inr (if length (stack vs) < 2 then PNone else stack vs ! (length (stack vs) - 2)), vs)"
  by (auto simp add: tos1_def py_defs list_getitem_def nat_diff_distrib Let_def)

lemma pop1_eq:
  "pop 1 vs = (if stack vs = [] then (Inr PNone, vs)
               else (Inr (last (stack vs)), vs\<lparr>stack := butlast (stack vs)\<rparr>))"
  by (simp add: pop_def py_defs stack_pop_def list_pop_def)

lemma push_eq:
  "push v vs = (Inr (), vs\<lparr>stack := stack vs @
       [if v = PNone then PList [] else if isinstance_list v then v else PList [v]]\<rparr>)"
  by (simp add: push_def placeholder_def Let_def)

lemma push_slot: "push (PList xs) vs = (Inr (), vs\<lparr>stack := stack vs @ [PList xs]\<rparr>)"
  by (simp add: push_eq isinstance_list_def)

lemma push_loop_eq:
  "push_loop k (PList xs) vs = (Inr (), vs\<lparr>stack := stack vs @ replicate k (PList xs)\<rparr>)"
proof (induction k arbitrary: vs)
  case 0
  then show ?case by (simp add: py_defs)
next
  case (Suc k)
  then show ?case by (simp add: py_defs push_slot replicate_append_same)
qed

lemma extend_loop_eq:
  "stack vs = rest @ map PList ss \<Longrightarrow>
   extend_loop (length ss) acc vs = (Inr (acc @ concat (rev ss)), vs\<lparr>stack := rest\<rparr>)"
proof (induction ss arbitrary: acc vs rule: rev_induct)
  case Nil
  then show ?case by (simp add: py_defs)
next
  case (snoc s ss)
  have st: "stack (vs\<lparr>stack := rest @ map PList ss\<rparr>) = rest @ map PList ss" by simp
  from snoc.prems have p: "pop 1 vs = (Inr (PList s), vs\<lparr>stack := rest @ map PList ss\<rparr>)"
    by (simp add: pop1_eq butlast_append)
  show ?case
    using snoc.IH [OF st, of "acc @ s"] by (simp add: p py_defs py_iter_def)
qed

lemma pop_n_push_one_eq:
  "stack vs = rest @ map PList ss \<Longrightarrow>
   pop_n_push_one (Some (int (length ss))) vs =
     (Inr (), vs\<lparr>stack := rest @ [PList (concat (rev ss))]\<rparr>)"
  by (simp add: pop_n_push_one_def py_defs py_range_def extend_loop_eq push_slot)

section \<open>Dispatch and the handlers\<close>

lemma handler_names: "map fst handler_methods = map handler_name registered_opnames"
  by (simp add: handler_methods_def registered_opnames_def handler_name_def)

lemma inj_handler_name: "inj handler_name"
  by (simp add: inj_def handler_name_def)

lemma getattr_unregistered:
  assumes "op \<notin> set registered_opnames"
  shows "getattr_handler (handler_name op) = Inl (AttributeError (handler_name op))"
proof -
  have "handler_name op \<notin> handler_name ` set registered_opnames"
    using assms inj_handler_name by (simp add: inj_image_mem_iff)
  then have "handler_name op \<notin> set (map fst handler_methods)"
    by (simp add: handler_names)
  then have "map_of handler_methods (handler_name op) = None"
    by (simp add: map_of_eq_None_iff)
  then show ?thesis by (simp add: getattr_handler_def)
qed

lemma getattr_registered:
  assumes "op \<in> set registered_opnames"
  shows "\<exists>h. getattr_handler (handler_name op) = Inr h"
proof -
  have "handler_name op \<in> fst ` set handler_methods"
    using assms handler_names by (metis image_eqI list.set_map)
  then obtain h where "map_of handler_methods (handler_name op) = Some h"
    by (metis map_of_eq_None_iff not_Some_eq)
  then show ?thesis by (simp add: getattr_handler_def)
qed

lemma dispatch_LOAD_ATTR: "opname instr = ''LOAD_ATTR'' \<Longrightarrow> emit_mutation instr = LOAD_ATTR_handler instr"
  by (simp add: emit_mutation_def getattr_handler_def handler_methods_def py_defs fun_eq_iff)

lemma dispatch_STORE_ATTR: "opname instr = ''STORE_ATTR'' \<Longrightarrow> emit_mutation instr = STORE_ATTR_handler instr"
  by (simp add: emit_mutation_def getattr_handler_def handler_methods_def py_defs fun_eq_iff)

lemma dispatch_UNPACK_EX: "opname instr = ''UNPACK_EX'' \<Longrightarrow> emit_mutation instr = UNPACK_EX_handler instr"
  by (simp add: emit_mutation_def getattr_handler_def handler_methods_def py_defs fun_eq_iff)

lemma STORE_ATTR_state: "snd (STORE_ATTR_handler instr vs) = vs"
  by (simp add: STORE_ATTR_handler_def tos_eq tos1_eq py_defs Let_def split: sum.splits)

lemma STORE_ATTR_ok:
  assumes "stack vs = rest @ [PList src, PList [t]]" "\<not> list_ex isinstance_list src"
  shows "STORE_ATTR_handler instr vs = (Inr (Some \<lparr>target = t, sources = set src\<rparr>), vs)"
  using assms
  by (simp add: STORE_ATTR_handler_def tos_eq tos1_eq py_defs Let_def py_len_def py_getitem_def
      list_getitem_def py_set_def py_iter_def nth_append)

lemma UNPACK_EX_assert:
  "2 \<le> length (extended_args vs) \<Longrightarrow> UNPACK_EX_handler instr vs = (Inl AssertionError, vs)"
  by (simp add: UNPACK_EX_handler_def py_defs)

lemma py_sum_from_Some: "py_sum_from acc (map Some es) = Inr (acc + sum_list es)"
  by (induction es arbitrary: acc) simp_all

lemma UNPACK_EX_ok:
  assumes "extended_args vs = map Some es" "length es \<le> 1" "arg instr = Some a"
    "stack vs = rest @ [PList s]"
  shows "UNPACK_EX_handler instr vs =
     (Inr None, vs\<lparr>stack := rest @ replicate (nat (sum_list es + 1 + a)) (PList s), extended_args := []\<rparr>)"
  using assms
  by (simp add: UNPACK_EX_handler_def py_defs py_sum_def py_sum_from_Some py_add_def
      pop_one_push_n_def pop1_eq py_range_def push_loop_eq)


section \<open>Every method keeps the stack well formed\<close>

lemma keeps_return: "R a \<Longrightarrow> keeps R (py_return a)"
  by (simp add: keeps_def py_return_def)

lemma keeps_raise: "keeps R (py_raise e)"
  by (simp add: keeps_def py_raise_def)

lemma keeps_lift: "(\<And>a. r = Inr a \<Longrightarrow> R a) \<Longrightarrow> keeps R (py_lift r)"
  by (cases r) (simp_all add: keeps_def py_lift_def)

lemma keeps_assert: "keeps (\<lambda>_. True) (py_assert b)"
  by (simp add: py_assert_def keeps_return keeps_raise)

lemma keeps_bind:
  assumes "keeps R m" and "\<And>a. R a \<Longrightarrow> keeps S (f a)"
  shows "keeps S (py_bind m f)"
  unfolding keeps_def
proof (intro allI impI)
  fix vs assume inv: "stack_inv vs"
  obtain r vs' where m: "m vs = (r, vs')" by (cases "m vs")
  from assms(1) inv m have inv': "stack_inv vs'" and ret: "case r of Inl e \<Rightarrow> True | Inr a \<Rightarrow> R a"
    by (auto simp: keeps_def)
  show "stack_inv (snd (py_bind m f vs)) \<and>
        (case fst (py_bind m f vs) of Inl e \<Rightarrow> True | Inr a \<Rightarrow> S a)"
  proof (cases r)
    case (Inl e)
    with m inv' show ?thesis by (simp add: py_bind_def)
  next
    case (Inr a)
    with ret have "keeps S (f a)" by (simp add: assms(2))
    with inv' have "stack_inv (snd (f a vs')) \<and> (case fst (f a vs') of Inl e \<Rightarrow> True | Inr b \<Rightarrow> S b)"
      by (simp add: keeps_def)
    with m Inr show ?thesis by (simp add: py_bind_def)
  qed
qed

lemma keeps_except:
  assumes "keeps R body" and "keeps R handler"
  shows "keeps R (except_IndexError body handler)"
  unfolding keeps_def
proof (intro allI impI)
  fix vs assume inv: "stack_inv vs"
  obtain r vs' where m: "body vs = (r, vs')" by (cases "body vs")
  from assms(1) inv m have inv': "stack_inv vs'" and ret: "case r of Inl e \<Rightarrow> True | Inr a \<Rightarrow> R a"
    by (auto simp: keeps_def)
  from assms(2) inv' have h: "stack_inv (snd (handler vs')) \<and>
      (case fst (handler vs') of Inl e \<Rightarrow> True | Inr a \<Rightarrow> R a)"
    by (simp add: keeps_def)
  show "stack_inv (snd (except_IndexError body handler vs)) \<and>
        (case fst (except_IndexError body handler vs) of Inl e \<Rightarrow> True | Inr a \<Rightarrow> R a)"
    using m inv' ret h by (cases r) (simp_all add: except_IndexError_def)
qed

lemma keeps_tos: "keeps slot_or_none tos"
  by (auto simp: keeps_def tos_eq slot_or_none_def stack_inv_def list_all_iff)

lemma keeps_tos1: "keeps slot_or_none tos1"
  by (auto simp: keeps_def tos1_eq slot_or_none_def stack_inv_def list_all_iff)

lemma keeps_stack_pop: "keeps is_slot stack_pop"
  by (auto simp: keeps_def stack_pop_def list_pop_def stack_inv_def list_all_iff
      dest: in_set_butlastD)

lemma keeps_pop1: "keeps slot_or_none (pop 1)"
  by (auto simp: keeps_def pop1_eq slot_or_none_def stack_inv_def list_all_iff
      dest: in_set_butlastD)

lemma keeps_pop_comprehension: "keeps (list_all is_slot) (pop_comprehension k)"
proof (induction k)
  case 0
  show ?case by (simp add: keeps_return)
next
  case (Suc k)
  show ?case
    by (simp, intro keeps_bind [OF keeps_stack_pop] keeps_bind [OF Suc] keeps_return) simp
qed

lemma keeps_pop_many: "n \<noteq> 1 \<Longrightarrow> keeps slots_or_none (pop n)"
  unfolding pop_def Let_def
  by (simp, intro keeps_except keeps_bind [OF keeps_pop_comprehension] keeps_return)
     (simp_all add: slots_or_none_def)

lemma keeps_push: "slot_or_none v \<or> is_label v \<Longrightarrow> keeps (\<lambda>_. True) (push v)"
  by (cases v)
     (auto simp: keeps_def push_eq slot_or_none_def stack_inv_def is_slot_def is_label_def
        isinstance_list_def)

lemma keeps_push_loop: "slot_or_none v \<Longrightarrow> keeps (\<lambda>_. True) (push_loop k v)"
proof (induction k)
  case 0
  show ?case by (simp add: keeps_return)
next
  case (Suc k)
  then show ?case
    by (simp, intro keeps_bind [OF keeps_push]) simp_all
qed

lemma keeps_extend_loop:
  "list_all is_label elements \<Longrightarrow> keeps (list_all is_label) (extend_loop k elements)"
proof (induction k arbitrary: elements)
  case 0
  then show ?case by (simp add: keeps_return)
next
  case (Suc k)
  have it: "keeps (list_all is_label) (py_lift (py_iter p))" if "slot_or_none p" for p
    using that by (intro keeps_lift) (auto simp: slot_or_none_def py_iter_def is_slot_def split: pyval.splits)
  show ?case
    apply simp
    apply (rule keeps_bind [OF keeps_pop1])
    apply (rule keeps_bind [OF it], assumption)
    apply (rule Suc.IH)
    using Suc.prems apply simp
    done
qed

lemma keeps_pop_n_push_one: "keeps (\<lambda>_. True) (pop_n_push_one n)"
  unfolding pop_n_push_one_def
  apply (rule keeps_bind [where R = "\<lambda>_. True"])
   apply (rule keeps_lift, simp)
  apply (rule keeps_bind [OF keeps_extend_loop])
   apply simp
  apply (rule keeps_push)
  apply (simp add: slot_or_none_def is_slot_def)
  done

lemma keeps_pop_one_push_n: "keeps (\<lambda>_. True) (pop_one_push_n n)"
  unfolding pop_one_push_n_def
  apply (rule keeps_bind [OF keeps_pop1])
  apply (rule keeps_bind [where R = "\<lambda>_. True"])
   apply (rule keeps_lift, simp)
  apply (rule keeps_push_loop, assumption)
  done


lemma keeps_py_set: "keeps (\<lambda>_. True) (py_lift (py_set t))"
  by (rule keeps_lift) simp

lemma keeps_POP_TOP: "keeps (\<lambda>_. True) (POP_TOP_handler instr)"
  unfolding POP_TOP_handler_def
  by (intro keeps_bind [OF keeps_pop1] keeps_return) simp

lemma keeps_unpack2:
  "slots_or_none p \<Longrightarrow> keeps (\<lambda>(a, b). is_slot a \<and> is_slot b) (py_lift (unpack2 p))"
  by (rule keeps_lift)
     (auto simp: slots_or_none_def unpack2_def py_iter_def split: list.splits sum.splits pyval.splits)

lemma keeps_ROT_TWO: "keeps (\<lambda>_. True) (ROT_TWO_handler instr)"
  unfolding ROT_TWO_handler_def
  apply (rule keeps_bind [OF keeps_pop_many], simp)
  apply (rule keeps_bind [OF keeps_unpack2], assumption)
  apply (clarsimp)
  apply (intro keeps_bind [OF keeps_push] keeps_return)
    apply (simp_all add: slot_or_none_def)
  done

lemma keeps_DUP_TOP: "keeps (\<lambda>_. True) (DUP_TOP_handler instr)"
  unfolding DUP_TOP_handler_def
  apply (rule keeps_bind [OF keeps_tos])
  apply (intro keeps_bind [OF keeps_push] keeps_return)
   apply simp_all
  done

lemma keeps_BINARY: "keeps (\<lambda>_. True) (BINARY_operation_handler instr)"
  unfolding BINARY_operation_handler_def
  by (intro keeps_bind [OF keeps_pop_n_push_one] keeps_return) simp

lemma keeps_RETURN_VALUE: "keeps (\<lambda>_. True) (RETURN_VALUE_handler instr)"
  unfolding RETURN_VALUE_handler_def
  by (intro keeps_bind [OF keeps_pop1] keeps_return) simp

lemma keeps_STORE_NAME: "keeps (\<lambda>_. True) (STORE_NAME_handler instr)"
  unfolding STORE_NAME_handler_def Let_def
  by (intro keeps_bind [OF keeps_tos] keeps_bind [OF keeps_py_set] keeps_bind [OF keeps_pop1]
      keeps_return) simp

lemma keeps_UNPACK_SEQUENCE: "keeps (\<lambda>_. True) (UNPACK_SEQUENCE_handler instr)"
  unfolding UNPACK_SEQUENCE_handler_def
  by (intro keeps_bind [OF keeps_pop_one_push_n] keeps_return) simp

lemma keeps_clear: "keeps (\<lambda>_. True) (\<lambda>vs'. (Inr None, vs'\<lparr>extended_args := []\<rparr>))"
  by (simp add: keeps_def stack_inv_def)

lemma keeps_UNPACK_EX_body:
  "keeps (\<lambda>_. True)
     (py_bind (py_assert b) (\<lambda>_.
      py_bind (py_lift r) (\<lambda>s.
      py_bind (py_lift (py_add (s + 1) a)) (\<lambda>number_of_receivers.
      py_bind (pop_one_push_n (Some number_of_receivers)) (\<lambda>_.
      (\<lambda>vs'. (Inr None, vs'\<lparr>extended_args := []\<rparr>)))))))"
  apply (rule keeps_bind [OF keeps_assert])
  apply (rule keeps_bind [where R = "\<lambda>_. True"])
   apply (rule keeps_lift, simp)
  apply (rule keeps_bind [where R = "\<lambda>_. True"])
   apply (rule keeps_lift, simp)
  apply (rule keeps_bind [OF keeps_pop_one_push_n])
  apply (rule keeps_clear)
  done

lemma keeps_UNPACK_EX: "keeps (\<lambda>_. True) (UNPACK_EX_handler instr)"
  unfolding keeps_def
proof (intro allI impI)
  fix vs assume inv: "stack_inv vs"
  show "stack_inv (snd (UNPACK_EX_handler instr vs)) \<and>
        (case fst (UNPACK_EX_handler instr vs) of Inl e \<Rightarrow> True | Inr a \<Rightarrow> True)"
    using keeps_UNPACK_EX_body [of "length (extended_args vs) \<le> 1" "py_sum (extended_args vs)"
        "arg instr"] inv
    unfolding keeps_def UNPACK_EX_handler_def by blast
qed

lemma keeps_STORE_ATTR: "keeps (\<lambda>_. True) (STORE_ATTR_handler instr)"
  by (simp add: keeps_def STORE_ATTR_state)

lemma keeps_LOAD_CONST: "keeps (\<lambda>_. True) (LOAD_CONST_handler instr)"
  unfolding LOAD_CONST_handler_def
  by (intro keeps_bind [OF keeps_push] keeps_return) (simp_all add: slot_or_none_def placeholder_def)

lemma keeps_LOAD_NAME: "keeps (\<lambda>_. True) (LOAD_NAME_handler instr)"
  unfolding LOAD_NAME_handler_def
  by (intro keeps_bind [OF keeps_push] keeps_return) (simp_all add: is_label_def)

lemma keeps_LOAD_FAST: "keeps (\<lambda>_. True) (LOAD_FAST_handler instr)"
  unfolding LOAD_FAST_handler_def
  by (intro keeps_bind [OF keeps_push] keeps_return) (simp_all add: is_label_def)

lemma keeps_BUILD_TUPLE: "keeps (\<lambda>_. True) (BUILD_TUPLE_handler instr)"
  unfolding BUILD_TUPLE_handler_def
  by (intro keeps_bind [OF keeps_pop_n_push_one] keeps_return) simp

lemma keeps_BUILD_LIST: "keeps (\<lambda>_. True) (BUILD_LIST_handler instr)"
  unfolding BUILD_LIST_handler_def
  by (intro keeps_bind [OF keeps_BUILD_TUPLE] keeps_return) simp

lemma keeps_BUILD_SET: "keeps (\<lambda>_. True) (BUILD_SET_handler instr)"
  unfolding BUILD_SET_handler_def
  by (intro keeps_bind [OF keeps_BUILD_TUPLE] keeps_return) simp

lemma keeps_BUILD_MAP: "keeps (\<lambda>_. True) (BUILD_MAP_handler instr)"
  unfolding BUILD_MAP_handler_def
  apply (rule keeps_bind [where R = "\<lambda>_. True"])
   apply (rule keeps_lift, simp)
  apply (intro keeps_bind [OF keeps_pop_n_push_one] keeps_return)
  apply simp
  done

lemma keeps_BUILD_CONST_KEY_MAP: "keeps (\<lambda>_. True) (BUILD_CONST_KEY_MAP_handler instr)"
  unfolding BUILD_CONST_KEY_MAP_handler_def
  apply (rule keeps_bind [where R = "\<lambda>_. True"])
   apply (rule keeps_lift, simp)
  apply (intro keeps_bind [OF keeps_pop_n_push_one] keeps_return)
  apply simp
  done

lemma keeps_LOAD_METHOD: "keeps (\<lambda>_. True) (LOAD_METHOD_handler instr)"
  unfolding LOAD_METHOD_handler_def
  by (intro keeps_bind [OF keeps_pop1] keeps_return) simp

lemma keeps_EXTENDED_ARG: "keeps (\<lambda>_. True) (EXTENDED_ARG_handler instr)"
  by (simp add: keeps_def EXTENDED_ARG_handler_def stack_inv_def)

lemma keeps_noop:
  "keeps (\<lambda>_. True) (UNARY_POSITIVE_handler instr)"
  "keeps (\<lambda>_. True) (UNARY_NEGATIVE_handler instr)"
  "keeps (\<lambda>_. True) (UNARY_NOT_handler instr)"
  "keeps (\<lambda>_. True) (UNARY_INVERT_handler instr)"
  "keeps (\<lambda>_. True) (LOAD_ATTR_handler instr)"
  "keeps (\<lambda>_. True) (CALL_METHOD_handler instr)"
  by (simp_all add: UNARY_POSITIVE_handler_def UNARY_NEGATIVE_handler_def UNARY_NOT_handler_def
      UNARY_INVERT_handler_def LOAD_ATTR_handler_def CALL_METHOD_handler_def keeps_return)

lemma keeps_handler_methods:
  "\<forall>(name, h) \<in> set handler_methods. keeps (\<lambda>_. True) (h instr)"
  by (simp add: handler_methods_def keeps_POP_TOP keeps_ROT_TWO keeps_DUP_TOP keeps_noop
      keeps_BINARY keeps_RETURN_VALUE keeps_STORE_NAME keeps_UNPACK_SEQUENCE keeps_UNPACK_EX
      keeps_STORE_ATTR keeps_LOAD_CONST keeps_LOAD_NAME keeps_BUILD_TUPLE keeps_BUILD_LIST
      keeps_BUILD_SET keeps_BUILD_MAP keeps_BUILD_CONST_KEY_MAP keeps_LOAD_FAST
      keeps_LOAD_METHOD keeps_EXTENDED_ARG STORE_FAST_handler_def)

lemma keeps_getattr:
  "getattr_handler name = Inr h \<Longrightarrow> keeps (\<lambda>_. True) (h instr)"
  using keeps_handler_methods [of instr]
  by (auto simp: getattr_handler_def split: option.splits dest!: map_of_SomeD)

lemma keeps_emit_mutation: "keeps (\<lambda>_. True) (emit_mutation instr)"
proof (cases "prefix ''BINARY_'' (opname instr)")
  case True
  then show ?thesis
    by (simp add: emit_mutation_def keeps_bind [OF keeps_BINARY] keeps_return)
next
  case False
  have "keeps (\<lambda>h. keeps (\<lambda>_. True) (h instr))
          (py_lift (getattr_handler (''_'' @ opname instr @ ''_handler'')))"
    by (rule keeps_lift) (rule keeps_getattr)
  then have "keeps (\<lambda>_. True)
      (py_bind (py_lift (getattr_handler (''_'' @ opname instr @ ''_handler''))) (\<lambda>h. h instr))"
    by (rule keeps_bind)
  with False show ?thesis by (simp add: emit_mutation_def)
qed

lemma emit_mutation_inv: "stack_inv vs \<Longrightarrow> stack_inv (snd (emit_mutation instr vs))"
  using keeps_emit_mutation [of instr] by (simp add: keeps_def)

lemma feed_inv: "stack_inv vs \<Longrightarrow> stack_inv (feed is vs)"
  by (induction "is" arbitrary: vs) (simp_all add: emit_mutation_inv)

lemma emit_mutations_inv: "stack_inv vs \<Longrightarrow> stack_inv (snd (emit_mutations is vs))"
proof (induction "is" arbitrary: vs)
  case Nil
  then show ?case by simp
next
  case (Cons i "is")
  obtain r vs' where s: "emit_mutation i vs = (r, vs')" by (cases "emit_mutation i vs")
  with Cons.prems emit_mutation_inv [of vs i] have inv': "stack_inv vs'" by simp
  show ?case
  proof (cases r)
    case (Inl e)
    with s inv' show ?thesis by simp
  next
    case (Inr m)
    obtain r2 vs2 where s2: "emit_mutations is vs' = (r2, vs2)" by (cases "emit_mutations is vs'")
    with Cons.IH [OF inv'] have "stack_inv vs2" by simp
    with s Inr s2 show ?thesis by (cases r2) simp_all
  qed
qed

lemma init_inv: "stack_inv ValueStack_init"
  by (simp add: stack_inv_def ValueStack_init_def)

lemma dispatch_registered:
  "\<not> prefix ''BINARY_'' (opname instr) \<Longrightarrow>
   map_of handler_methods (''_'' @ opname instr @ ''_handler'') = Some h \<Longrightarrow>
   emit_mutation instr vs = h instr vs"
  by (simp add: emit_mutation_def getattr_handler_def py_defs)

lemma emit_LOAD_NAME:
  "opname instr = ''LOAD_NAME'' \<Longrightarrow>
   emit_mutation instr vs = (Inr None, vs\<lparr>stack := stack vs @ [PList [PStr (argrepr instr)]]\<rparr>)"
  by (simp add: dispatch_registered handler_methods_def LOAD_NAME_handler_def py_defs push_eq
      isinstance_list_def)

lemma emit_POP_TOP:
  "opname instr = ''POP_TOP'' \<Longrightarrow> emit_mutation instr vs = POP_TOP_handler instr vs"
  by (simp add: dispatch_registered handler_methods_def)

lemma emit_DUP_TOP:
  "opname instr = ''DUP_TOP'' \<Longrightarrow> emit_mutation instr vs = DUP_TOP_handler instr vs"
  by (simp add: dispatch_registered handler_methods_def)

lemma emit_EXTENDED_ARG:
  "opname instr = ''EXTENDED_ARG'' \<Longrightarrow>
   emit_mutation instr vs = (Inr None, vs\<lparr>extended_args := extended_args vs @ [arg instr]\<rparr>)"
  by (simp add: dispatch_registered handler_methods_def EXTENDED_ARG_handler_def)

lemma emit_BINARY:
  assumes "prefix ''BINARY_'' (opname instr)" and "stack vs = rest @ [PList s1, PList s0]"
  shows "emit_mutation instr vs = (Inr None, vs\<lparr>stack := rest @ [PList (s0 @ s1)]\<rparr>)"
proof -
  from assms(2) have "stack vs = rest @ map PList [s1, s0]" by simp
  from pop_n_push_one_eq [OF this]
  have "pop_n_push_one (Some 2) vs = (Inr (), vs\<lparr>stack := rest @ [PList (s0 @ s1)]\<rparr>)"
    by simp
  with assms(1) show ?thesis
    by (simp add: emit_mutation_def BINARY_operation_handler_def py_defs)
qed

lemma is_slot_unfold:
  assumes "is_slot s"
  shows "s \<noteq> placeholder \<and> (\<exists>xs. s = PList xs \<and> placeholder \<notin> set xs \<and> list_all is_label xs)"
proof (cases s)
  case (PList xs)
  with assms have l: "list_all is_label xs" by (simp add: is_slot_def)
  then have "placeholder \<notin> set xs"
    by (auto simp: list_all_iff is_label_def placeholder_def)
  with PList l show ?thesis by (simp add: placeholder_def)
qed (use assms in \<open>simp_all add: is_slot_def\<close>)

section \<open>The underflow exception is built and never raised\<close>

lemma nu_return: "never_underflow_error (py_return a)"
  by (simp add: never_underflow_error_def py_return_def)

lemma nu_assert: "never_underflow_error (py_assert b)"
  by (simp add: never_underflow_error_def py_assert_def py_return_def py_raise_def)

lemma nu_bind:
  assumes "never_underflow_error m" and "\<And>a. never_underflow_error (f a)"
  shows "never_underflow_error (py_bind m f)"
  unfolding never_underflow_error_def
proof (intro allI)
  fix vs msg
  obtain r vs' where m: "m vs = (r, vs')" by (cases "m vs")
  show "fst (py_bind m f vs) \<noteq> Inl (ValueStackException msg)"
  proof (cases r)
    case (Inl e)
    with m assms(1) [unfolded never_underflow_error_def, rule_format, of vs msg]
    show ?thesis by (simp add: py_bind_def)
  next
    case (Inr a)
    with m assms(2) [unfolded never_underflow_error_def, rule_format, of a vs' msg]
    show ?thesis by (simp add: py_bind_def)
  qed
qed

lemma nu_except:
  assumes "never_underflow_error body" and "never_underflow_error handler"
  shows "never_underflow_error (except_IndexError body handler)"
  unfolding never_underflow_error_def
proof (intro allI)
  fix vs msg
  obtain r vs' where m: "body vs = (r, vs')" by (cases "body vs")
  show "fst (except_IndexError body handler vs) \<noteq> Inl (ValueStackException msg)"
    using m assms(1) [unfolded never_underflow_error_def, rule_format, of vs msg]
      assms(2) [unfolded never_underflow_error_def, rule_format, of vs' msg]
    by (cases r) (simp_all add: except_IndexError_def)
qed

lemma nu_case_prod:
  "(\<And>a b. never_underflow_error (f a b)) \<Longrightarrow> never_underflow_error (case p of (a, b) \<Rightarrow> f a b)"
  by (cases p) simp

lemma nu_builtins:
  "never_underflow_error (py_lift (py_iter v))"
  "never_underflow_error (py_lift (py_set v))"
  "never_underflow_error (py_lift (py_len v))"
  "never_underflow_error (py_lift (py_getitem v i))"
  "never_underflow_error (py_lift (unpack2 v))"
  "never_underflow_error (py_lift (py_range n))"
  "never_underflow_error (py_lift (py_add k a))"
  "never_underflow_error (py_lift (py_mul a k))"
  by (auto simp: never_underflow_error_def py_lift_def py_iter_def py_set_def py_len_def
      py_getitem_def list_getitem_def unpack2_def py_range_def py_add_def py_mul_def Let_def
      split: pyval.splits sum.splits list.splits option.splits if_splits)

lemma py_sum_from_no_underflow: "py_sum_from acc xs \<noteq> Inl (ValueStackException msg)"
  by (induction acc xs rule: py_sum_from.induct) simp_all

lemma nu_py_sum: "never_underflow_error (py_lift (py_sum xs))"
  by (simp add: never_underflow_error_def py_lift_def py_sum_def py_sum_from_no_underflow)

lemma nu_tos: "never_underflow_error tos"
  by (simp add: never_underflow_error_def tos_eq)

lemma nu_tos1: "never_underflow_error tos1"
  by (simp add: never_underflow_error_def tos1_eq)

lemma nu_push: "never_underflow_error (push v)"
  by (simp add: never_underflow_error_def push_eq)

lemma nu_stack_pop: "never_underflow_error stack_pop"
  by (simp add: never_underflow_error_def stack_pop_def list_pop_def)

lemma nu_pop_comprehension: "never_underflow_error (pop_comprehension k)"
  by (induction k) (simp_all add: nu_return nu_bind nu_stack_pop)

lemma nu_pop: "never_underflow_error (pop n)"
  unfolding pop_def Let_def
  by (simp add: nu_except nu_bind nu_return nu_stack_pop nu_pop_comprehension)

lemma nu_extend_loop: "never_underflow_error (extend_loop k elements)"
  by (induction k arbitrary: elements) (simp_all add: nu_return nu_bind nu_pop nu_builtins)

lemma nu_push_loop: "never_underflow_error (push_loop k t)"
  by (induction k) (simp_all add: nu_return nu_bind nu_push)

lemma nu_pop_n_push_one: "never_underflow_error (pop_n_push_one n)"
  by (simp add: pop_n_push_one_def nu_bind nu_builtins nu_extend_loop nu_push)

lemma nu_pop_one_push_n: "never_underflow_error (pop_one_push_n n)"
  by (simp add: pop_one_push_n_def nu_bind nu_builtins nu_pop nu_push_loop)

lemmas nu_rules = nu_return nu_assert nu_bind nu_case_prod nu_builtins nu_py_sum nu_tos nu_tos1
  nu_push nu_pop nu_pop_n_push_one nu_pop_one_push_n

lemma nu_UNPACK_EX: "never_underflow_error (UNPACK_EX_handler instr)"
  unfolding never_underflow_error_def
proof (intro allI)
  fix vs :: ValueStack and msg
  have c: "never_underflow_error
      (\<lambda>vs' :: ValueStack. (Inr None :: py_error + Mutation option, vs'\<lparr>extended_args := []\<rparr>))"
    by (simp add: never_underflow_error_def)
  have "never_underflow_error
     (py_bind (py_assert (length (extended_args vs) \<le> 1)) (\<lambda>_.
      py_bind (py_lift (py_sum (extended_args vs))) (\<lambda>s.
      py_bind (py_lift (py_add (s + 1) (arg instr))) (\<lambda>number_of_receivers.
      py_bind (pop_one_push_n (Some number_of_receivers)) (\<lambda>_.
      (\<lambda>vs' :: ValueStack.
         (Inr None :: py_error + Mutation option, vs'\<lparr>extended_args := []\<rparr>)))))))"
    by (intro nu_rules c)
  then show "fst (UNPACK_EX_handler instr vs) \<noteq> Inl (ValueStackException msg)"
    unfolding never_underflow_error_def UNPACK_EX_handler_def by blast
qed

lemma nu_handler_methods:
  "\<forall>(name, h) \<in> set handler_methods. never_underflow_error (h instr)"
  by (simp add: handler_methods_def POP_TOP_handler_def ROT_TWO_handler_def DUP_TOP_handler_def
      UNARY_POSITIVE_handler_def UNARY_NEGATIVE_handler_def UNARY_NOT_handler_def
      UNARY_INVERT_handler_def BINARY_operation_handler_def RETURN_VALUE_handler_def
      STORE_NAME_handler_def UNPACK_SEQUENCE_handler_def STORE_ATTR_handler_def
      LOAD_CONST_handler_def LOAD_NAME_handler_def BUILD_TUPLE_handler_def BUILD_LIST_handler_def
      BUILD_SET_handler_def BUILD_MAP_handler_def BUILD_CONST_KEY_MAP_handler_def
      LOAD_ATTR_handler_def LOAD_FAST_handler_def STORE_FAST_handler_def LOAD_METHOD_handler_def
      CALL_METHOD_handler_def nu_UNPACK_EX Let_def nu_rules)
     (simp add: never_underflow_error_def EXTENDED_ARG_handler_def)

lemma emit_mutation_never_underflow_error:
  "fst (emit_mutation instr vs) \<noteq> Inl (ValueStackException msg)"
proof (cases "prefix ''BINARY_'' (opname instr)")
  case True
  have "never_underflow_error (py_bind (BINARY_operation_handler instr) (\<lambda>_. py_return (None :: Mutation option)))"
    unfolding BINARY_operation_handler_def by (intro nu_rules)
  with True show ?thesis by (simp add: emit_mutation_def never_underflow_error_def)
next
  case False
  let ?name = "''_'' @ opname instr @ ''_handler''"
  show ?thesis
  proof (cases "map_of handler_methods ?name")
    case None
    with False show ?thesis
      by (simp add: emit_mutation_def getattr_handler_def py_defs)
  next
    case (Some h)
    then have "(?name, h) \<in> set handler_methods" by (rule map_of_SomeD)
    with nu_handler_methods [of instr] have "never_underflow_error (h instr)" by auto
    with False Some show ?thesis
      by (simp add: emit_mutation_def getattr_handler_def py_defs never_underflow_error_def)
  qed
qed

section \<open>The claims\<close>

text \<open>
  Claim C1. A pop or a peek (\<^verbatim>\<open>tos\<close>, \<^verbatim>\<open>tos1\<close>) that asks for more slots than the stack
  holds should raise the stack-underflow failure, which should reach the caller of
  \<^verbatim>\<open>emit_mutation\<close>. The source builds the \<open>ValueStackException\<close> in its
  \<^verbatim>\<open>except IndexError\<close> clauses and never raises it. On the empty stack \<^verbatim>\<open>tos\<close>,
  \<^verbatim>\<open>tos1\<close> and \<^verbatim>\<open>_pop\<close> return \<^verbatim>\<open>None\<close>; \<^verbatim>\<open>tos1\<close> and \<^verbatim>\<open>_pop(2)\<close> do so on
  a one-slot stack, and the latter has then emptied the stack; \<^verbatim>\<open>POP_TOP\<close> on the empty
  stack returns normally, \<^verbatim>\<open>DUP_TOP\<close> on the empty stack pushes an empty slot; and no
  instruction in any state makes \<^verbatim>\<open>emit_mutation\<close> raise \<open>ValueStackException\<close>.
\<close>

theorem underflow_swallowed:
  "tos ValueStack_init = (Inr PNone, ValueStack_init) \<and>
   tos1 ValueStack_init = (Inr PNone, ValueStack_init) \<and>
   tos1 \<lparr>stack = [PList [PStr ''a'']], extended_args = []\<rparr> =
     (Inr PNone, \<lparr>stack = [PList [PStr ''a'']], extended_args = []\<rparr>) \<and>
   pop 1 ValueStack_init = (Inr PNone, ValueStack_init) \<and>
   pop 2 \<lparr>stack = [PList [PStr ''a'']], extended_args = []\<rparr> = (Inr PNone, ValueStack_init) \<and>
   emit_mutation (mk_instr ''POP_TOP'' None '''') ValueStack_init = (Inr None, ValueStack_init) \<and>
   emit_mutation (mk_instr ''DUP_TOP'' None '''') ValueStack_init =
     (Inr None, \<lparr>stack = [PList []], extended_args = []\<rparr>) \<and>
   (\<forall>instr vs msg. fst (emit_mutation instr vs) \<noteq> Inl (ValueStackException msg))"
  by (simp add: emit_mutation_never_underflow_error tos_eq tos1_eq pop1_eq ValueStack_init_def emit_POP_TOP emit_DUP_TOP mk_instr_def
      POP_TOP_handler_def DUP_TOP_handler_def py_defs push_eq
      pop_def stack_pop_def list_pop_def eval_nat_numeral)

text \<open>
  Claim C2. For every instruction whose opcode name does not start with \<^verbatim>\<open>BINARY_\<close> and
  is not one of the names with a handler method, \<^verbatim>\<open>emit_mutation\<close> raises, leaving the
  state as it was. The failure is the \<open>AttributeError\<close> of the \<^verbatim>\<open>getattr\<close> lookup (the
  unsupported-instruction failure of the design); it carries the name
  \<^verbatim>\<open>_<opname>_handler\<close> that was looked up, and so names the unknown opcode.
\<close>

theorem unknown_opcode_fails:
  assumes "\<not> prefix ''BINARY_'' (opname instr)"
    and "opname instr \<notin> set registered_opnames"
  shows "emit_mutation instr vs =
           (Inl (AttributeError (''_'' @ opname instr @ ''_handler'')), vs)"
  using assms getattr_unregistered [of "opname instr"]
  by (simp add: emit_mutation_def py_defs handler_name_def)

theorem unknown_opcode_fails_witness:
  "\<not> prefix ''BINARY_'' (opname (mk_instr ''FOO'' None '''')) \<and>
   opname (mk_instr ''FOO'' None '''') \<notin> set registered_opnames \<and>
   emit_mutation (mk_instr ''FOO'' None '''') ValueStack_init =
     (Inl (AttributeError ''_FOO_handler''), ValueStack_init)"
proof -
  have h1: "\<not> prefix ''BINARY_'' (opname (mk_instr ''FOO'' None ''''))"
    by (simp add: mk_instr_def)
  have h2: "opname (mk_instr ''FOO'' None '''') \<notin> set registered_opnames"
    by (simp add: mk_instr_def registered_opnames_def)
  show ?thesis
    using unknown_opcode_fails [OF h1 h2, of ValueStack_init] h1 h2
    by (simp add: mk_instr_def)
qed

text \<open>
  Claim C3, as stated: from the empty stack, \<^verbatim>\<open>LOAD_NAME b\<close>, \<^verbatim>\<open>LOAD_ATTR x\<close>,
  \<^verbatim>\<open>STORE_ATTR y\<close> returns the mutation with target \<open>b\<close> and sources \<open>{b}\<close>. It does
  not: the store reads its sources from the slot under the top, and after one load
  there is none, so no mutation is returned (\<^verbatim>\<open>set(None)\<close> raises \<open>TypeError\<close>).
\<close>

theorem store_attr_without_value_counterexample:
  "emit_mutations
     [mk_instr ''LOAD_NAME'' (Some 0) ''b'', mk_instr ''LOAD_ATTR'' (Some 1) ''x'',
      mk_instr ''STORE_ATTR'' (Some 2) ''y''] ValueStack_init
   = (Inl TypeError, \<lparr>stack = [PList [PStr ''b'']], extended_args = []\<rparr>)"
  by (simp add: emit_LOAD_NAME dispatch_LOAD_ATTR dispatch_STORE_ATTR mk_instr_def
      LOAD_ATTR_handler_def ValueStack_init_def STORE_ATTR_handler_def tos_eq tos1_eq py_defs
      py_len_def py_getitem_def list_getitem_def py_set_def py_iter_def)

text \<open>
  Claim C3, amended: started on a stack whose top slot is the list of labels \<open>src\<close> of the
  value to store, the same three instructions return, for the last one, the mutation with
  target \<open>b\<close> and sources \<open>set src\<close>, and leave the slot of \<open>b\<close> pushed on top. Started on
  the one-slot stack \<open>[[b]]\<close> the sources are \<open>{b}\<close>.
\<close>

theorem store_attr_after_load:
  assumes "stack vs = rest @ [PList src]" and "\<not> list_ex isinstance_list src"
  shows "emit_mutations
     [mk_instr ''LOAD_NAME'' a0 ''b'', mk_instr ''LOAD_ATTR'' a1 ''x'',
      mk_instr ''STORE_ATTR'' a2 ''y''] vs
   = (Inr [None, None, Some \<lparr>target = PStr ''b'', sources = set src\<rparr>],
      vs\<lparr>stack := stack vs @ [PList [PStr ''b'']]\<rparr>)"
proof -
  let ?vs1 = "vs\<lparr>stack := stack vs @ [PList [PStr ''b'']]\<rparr>"
  have s1: "emit_mutation (mk_instr ''LOAD_NAME'' a0 ''b'') vs = (Inr None, ?vs1)"
    by (simp add: emit_LOAD_NAME mk_instr_def)
  have s2: "emit_mutation (mk_instr ''LOAD_ATTR'' a1 ''x'') ?vs1 = (Inr None, ?vs1)"
    by (simp add: dispatch_LOAD_ATTR mk_instr_def LOAD_ATTR_handler_def py_defs)
  have st: "stack ?vs1 = rest @ [PList src, PList [PStr ''b'']]"
    using assms(1) by simp
  have s3: "emit_mutation (mk_instr ''STORE_ATTR'' a2 ''y'') ?vs1 =
      (Inr (Some \<lparr>target = PStr ''b'', sources = set src\<rparr>), ?vs1)"
    using STORE_ATTR_ok [OF st assms(2)] by (simp add: dispatch_STORE_ATTR mk_instr_def)
  show ?thesis by (simp add: s1 s2 s3)
qed

theorem store_attr_after_load_witness:
  "stack \<lparr>stack = [PList [PStr ''b'']], extended_args = []\<rparr> = [] @ [PList [PStr ''b'']] \<and>
   \<not> list_ex isinstance_list [PStr ''b''] \<and>
   emit_mutations
     [mk_instr ''LOAD_NAME'' (Some 0) ''b'', mk_instr ''LOAD_ATTR'' (Some 1) ''x'',
      mk_instr ''STORE_ATTR'' (Some 2) ''y'']
     \<lparr>stack = [PList [PStr ''b'']], extended_args = []\<rparr>
   = (Inr [None, None, Some \<lparr>target = PStr ''b'', sources = {PStr ''b''}\<rparr>],
      \<lparr>stack = [PList [PStr ''b''], PList [PStr ''b'']], extended_args = []\<rparr>)"
proof -
  have h1: "stack \<lparr>stack = [PList [PStr ''b'']], extended_args = []\<rparr> = [] @ [PList [PStr ''b'']]"
    by simp
  have h2: "\<not> list_ex isinstance_list [PStr ''b'']"
    by (simp add: isinstance_list_def)
  show ?thesis
    using store_attr_after_load [OF h1 h2, of "Some 0" "Some 1" "Some 2"] h1 h2
    by simp
qed

text \<open>
  Claim C4. Processing a \<^verbatim>\<open>LOAD_ATTR\<close> instruction returns no mutation and leaves the
  whole state as it was: the stack (depth and every slot, the top included) and the
  stored extended arguments.
\<close>

theorem load_attr_noop:
  "opname instr = ''LOAD_ATTR'' \<Longrightarrow> emit_mutation instr vs = (Inr None, vs)"
  by (simp add: dispatch_LOAD_ATTR LOAD_ATTR_handler_def py_return_def)

theorem load_attr_noop_witness:
  "opname (mk_instr ''LOAD_ATTR'' (Some 1) ''x'') = ''LOAD_ATTR'' \<and>
   emit_mutation (mk_instr ''LOAD_ATTR'' (Some 1) ''x'')
     \<lparr>stack = [PList [PStr ''b'']], extended_args = [Some 2]\<rparr>
   = (Inr None, \<lparr>stack = [PList [PStr ''b'']], extended_args = [Some 2]\<rparr>)"
proof -
  have h: "opname (mk_instr ''LOAD_ATTR'' (Some 1) ''x'') = ''LOAD_ATTR''"
    by (simp add: mk_instr_def)
  show ?thesis
    using load_attr_noop [OF h, of "\<lparr>stack = [PList [PStr ''b'']], extended_args = [Some 2]\<rparr>"] h
    by simp
qed

text \<open>
  Claim C5. For every instruction whose opcode name starts with \<^verbatim>\<open>BINARY_\<close>, on a stack
  whose two top slots are the label lists \<open>s1\<close> (below) and \<open>s0\<close> (top),
  \<^verbatim>\<open>emit_mutation\<close> replaces the two by the single slot \<open>s0 @ s1\<close>, whose labels are the
  union of both, and returns no mutation. From the empty stack, \<^verbatim>\<open>LOAD_NAME a\<close>,
  \<^verbatim>\<open>LOAD_NAME b\<close>, \<^verbatim>\<open>BINARY_ADD\<close> leaves exactly one slot, with the labels \<open>{a, b}\<close>.
\<close>

theorem binary_operation_merges:
  "(prefix ''BINARY_'' (opname instr) \<and> stack vs = rest @ [PList s1, PList s0] \<longrightarrow>
      emit_mutation instr vs = (Inr None, vs\<lparr>stack := rest @ [PList (s0 @ s1)]\<rparr>) \<and>
      set (s0 @ s1) = set s1 \<union> set s0) \<and>
   emit_mutations
     [mk_instr ''LOAD_NAME'' (Some 0) ''a'', mk_instr ''LOAD_NAME'' (Some 1) ''b'',
      mk_instr ''BINARY_ADD'' None ''''] ValueStack_init
   = (Inr [None, None, None], \<lparr>stack = [PList [PStr ''b'', PStr ''a'']], extended_args = []\<rparr>) \<and>
   set [PStr ''b'', PStr ''a''] = {PStr ''a'', PStr ''b''}"
proof -
  let ?vs2 = "\<lparr>stack = [PList [PStr ''a''], PList [PStr ''b'']], extended_args = []\<rparr>"
  have p: "prefix ''BINARY_'' (opname (mk_instr ''BINARY_ADD'' None ''''))"
    by (simp add: mk_instr_def)
  have st: "stack ?vs2 = [] @ [PList [PStr ''a''], PList [PStr ''b'']]" by simp
  have b: "emit_mutation (mk_instr ''BINARY_ADD'' None '''') ?vs2 =
      (Inr None, \<lparr>stack = [PList [PStr ''b'', PStr ''a'']], extended_args = []\<rparr>)"
    using emit_BINARY [OF p st] by simp
  have ex: "emit_mutations
     [mk_instr ''LOAD_NAME'' (Some 0) ''a'', mk_instr ''LOAD_NAME'' (Some 1) ''b'',
      mk_instr ''BINARY_ADD'' None ''''] ValueStack_init
   = (Inr [None, None, None], \<lparr>stack = [PList [PStr ''b'', PStr ''a'']], extended_args = []\<rparr>)"
    using b by (simp add: emit_LOAD_NAME mk_instr_def ValueStack_init_def)
  have gen: "prefix ''BINARY_'' (opname instr) \<and> stack vs = rest @ [PList s1, PList s0] \<longrightarrow>
      emit_mutation instr vs = (Inr None, vs\<lparr>stack := rest @ [PList (s0 @ s1)]\<rparr>) \<and>
      set (s0 @ s1) = set s1 \<union> set s0"
    using emit_BINARY [of instr vs rest s1 s0] by auto
  have "set [PStr ''b'', PStr ''a''] = {PStr ''a'', PStr ''b''}" by auto
  with gen ex show ?thesis by blast
qed

theorem binary_operation_merges_witness:
  "prefix ''BINARY_'' (opname (mk_instr ''BINARY_SUBTRACT'' None '''')) \<and>
   stack \<lparr>stack = [PList [], PList [PStr ''x'', PStr ''y''], PList [PStr ''z'']], extended_args = []\<rparr>
     = [PList []] @ [PList [PStr ''x'', PStr ''y''], PList [PStr ''z'']] \<and>
   emit_mutation (mk_instr ''BINARY_SUBTRACT'' None '''')
     \<lparr>stack = [PList [], PList [PStr ''x'', PStr ''y''], PList [PStr ''z'']], extended_args = []\<rparr>
   = (Inr None, \<lparr>stack = [PList [], PList [PStr ''z'', PStr ''x'', PStr ''y'']], extended_args = []\<rparr>)"
proof -
  have h1: "prefix ''BINARY_'' (opname (mk_instr ''BINARY_SUBTRACT'' None ''''))"
    by (simp add: mk_instr_def)
  have h2: "stack \<lparr>stack = [PList [], PList [PStr ''x'', PStr ''y''], PList [PStr ''z'']], extended_args = []\<rparr>
     = [PList []] @ [PList [PStr ''x'', PStr ''y''], PList [PStr ''z'']]" by simp
  show ?thesis
    using binary_operation_merges [of "mk_instr ''BINARY_SUBTRACT'' None ''''"
        "\<lparr>stack = [PList [], PList [PStr ''x'', PStr ''y''], PList [PStr ''z'']], extended_args = []\<rparr>"
        "[PList []]" "[PStr ''x'', PStr ''y'']" "[PStr ''z'']"] h1 h2
    by simp
qed

text \<open>
  Claim C6, as stated: \<^verbatim>\<open>UNPACK_EX\<close> pops one slot and pushes (sum of all stored extended
  arguments + 1 + argument) copies of it, then clears the stored arguments. With two
  stored values 1 and 2 and argument 1 it does not push 5 copies: the assertion at the
  head of the handler fails and the state stays as it was.
\<close>

theorem unpack_ex_two_pending_counterexample:
  "emit_mutation (mk_instr ''UNPACK_EX'' (Some 1) '''')
     \<lparr>stack = [PList [PStr ''s'']], extended_args = [Some 1, Some 2]\<rparr>
   = (Inl AssertionError, \<lparr>stack = [PList [PStr ''s'']], extended_args = [Some 1, Some 2]\<rparr>) \<and>
   emit_mutation (mk_instr ''UNPACK_EX'' (Some 1) '''')
     \<lparr>stack = [PList [PStr ''s'']], extended_args = [Some 1, Some 2]\<rparr>
   \<noteq> (Inr None, \<lparr>stack = replicate (nat (1 + 2 + 1 + 1)) (PList [PStr ''s'']), extended_args = []\<rparr>)"
  by (simp add: dispatch_UNPACK_EX mk_instr_def UNPACK_EX_assert)

text \<open>
  Claim C6, amended: when at most one extended argument is stored and the top of the stack
  is a slot, \<^verbatim>\<open>UNPACK_EX\<close> with argument \<open>a\<close> pops that slot, pushes (sum of the stored
  values + 1 + \<open>a\<close>) copies of it (none when that number is negative) and clears the
  stored arguments. With the one stored value 2 and argument 1, exactly 4 copies are
  pushed.
\<close>

theorem unpack_ex_spreads:
  assumes "opname instr = ''UNPACK_EX''" and "arg instr = Some a"
    and "extended_args vs = map Some es" and "length es \<le> 1"
    and "stack vs = rest @ [PList s]"
  shows "emit_mutation instr vs =
     (Inr None,
      vs\<lparr>stack := rest @ replicate (nat (sum_list es + 1 + a)) (PList s), extended_args := []\<rparr>)"
  using UNPACK_EX_ok [OF assms(3) assms(4) assms(2) assms(5)] assms(1)
  by (simp add: dispatch_UNPACK_EX)

theorem unpack_ex_spreads_witness:
  "opname (mk_instr ''UNPACK_EX'' (Some 1) '''') = ''UNPACK_EX'' \<and>
   arg (mk_instr ''UNPACK_EX'' (Some 1) '''') = Some 1 \<and>
   extended_args \<lparr>stack = [PList [PStr ''s'']], extended_args = [Some 2]\<rparr> = map Some [2] \<and>
   length [2::int] \<le> 1 \<and>
   stack \<lparr>stack = [PList [PStr ''s'']], extended_args = [Some 2]\<rparr> = [] @ [PList [PStr ''s'']] \<and>
   emit_mutation (mk_instr ''UNPACK_EX'' (Some 1) '''')
     \<lparr>stack = [PList [PStr ''s'']], extended_args = [Some 2]\<rparr>
   = (Inr None,
      \<lparr>stack = [PList [PStr ''s''], PList [PStr ''s''], PList [PStr ''s''], PList [PStr ''s'']],
       extended_args = []\<rparr>)"
proof -
  let ?i = "mk_instr ''UNPACK_EX'' (Some 1) ''''"
  let ?vs = "\<lparr>stack = [PList [PStr ''s'']], extended_args = [Some 2]\<rparr>"
  have h1: "opname ?i = ''UNPACK_EX''" by (simp add: mk_instr_def)
  have h2: "arg ?i = Some 1" by (simp add: mk_instr_def)
  have h3: "extended_args ?vs = map Some [2]" by simp
  have h4: "length [2::int] \<le> 1" by simp
  have h5: "stack ?vs = [] @ [PList [PStr ''s'']]" by simp
  have n: "replicate (nat (sum_list [2] + 1 + 1)) (PList [PStr ''s'']) =
      [PList [PStr ''s''], PList [PStr ''s''], PList [PStr ''s''], PList [PStr ''s'']]"
    by (simp add: eval_nat_numeral)
  show ?thesis
    using unpack_ex_spreads [OF h1 h2 h3 h4 h5] h1 h2 h3 h4 h5 n by simp
qed

text \<open>
  Claim C7. For every \<open>n\<close> and slots \<open>S1..Sn\<close> on top of the stack (\<open>ss\<close>, the last one
  topmost), \<^verbatim>\<open>_pop_n_push_one(n)\<close> pops the \<open>n\<close> slots and pushes one slot, the
  concatenation of their label lists from the top down. Its labels are the union of the
  labels of \<open>S1..Sn\<close>, the depth of the stack decreases by \<open>n - 1\<close>, and the new slot is
  flat: it is a list of labels when each \<open>Si\<close> is.
\<close>

theorem merge_n_into_one:
  "stack vs = rest @ map PList ss \<longrightarrow>
     pop_n_push_one (Some (int (length ss))) vs =
       (Inr (), vs\<lparr>stack := rest @ [PList (concat (rev ss))]\<rparr>) \<and>
     set (concat (rev ss)) = (\<Union>s \<in> set ss. set s) \<and>
     int (length (stack (snd (pop_n_push_one (Some (int (length ss))) vs)))) =
       int (length (stack vs)) - (int (length ss) - 1) \<and>
     (list_all is_slot (map PList ss) \<longrightarrow> is_slot (PList (concat (rev ss))))"
proof
  assume st: "stack vs = rest @ map PList ss"
  have r: "pop_n_push_one (Some (int (length ss))) vs =
       (Inr (), vs\<lparr>stack := rest @ [PList (concat (rev ss))]\<rparr>)"
    by (rule pop_n_push_one_eq [OF st])
  have u: "set (concat (rev ss)) = (\<Union>s \<in> set ss. set s)" by auto
  have d: "int (length (stack (snd (pop_n_push_one (Some (int (length ss))) vs)))) =
       int (length (stack vs)) - (int (length ss) - 1)"
    by (simp add: r st)
  have f: "list_all is_slot (map PList ss) \<longrightarrow> is_slot (PList (concat (rev ss)))"
    by (auto simp: is_slot_def list_all_iff)
  from r u d f show "pop_n_push_one (Some (int (length ss))) vs =
       (Inr (), vs\<lparr>stack := rest @ [PList (concat (rev ss))]\<rparr>) \<and>
     set (concat (rev ss)) = (\<Union>s \<in> set ss. set s) \<and>
     int (length (stack (snd (pop_n_push_one (Some (int (length ss))) vs)))) =
       int (length (stack vs)) - (int (length ss) - 1) \<and>
     (list_all is_slot (map PList ss) \<longrightarrow> is_slot (PList (concat (rev ss))))"
    by blast
qed

theorem merge_n_into_one_witness:
  "stack \<lparr>stack = [PList [PStr ''k''], PList [PStr ''a''], PList [], PList [PStr ''b'', PStr ''c'']],
          extended_args = []\<rparr>
     = [PList [PStr ''k'']] @ map PList [[PStr ''a''], [], [PStr ''b'', PStr ''c'']] \<and>
   list_all is_slot (map PList [[PStr ''a''], [], [PStr ''b'', PStr ''c'']]) \<and>
   pop_n_push_one (Some 3)
     \<lparr>stack = [PList [PStr ''k''], PList [PStr ''a''], PList [], PList [PStr ''b'', PStr ''c'']],
      extended_args = []\<rparr>
   = (Inr (), \<lparr>stack = [PList [PStr ''k''], PList [PStr ''b'', PStr ''c'', PStr ''a'']],
               extended_args = []\<rparr>) \<and>
   is_slot (PList [PStr ''b'', PStr ''c'', PStr ''a''])"
proof -
  let ?vs = "\<lparr>stack = [PList [PStr ''k''], PList [PStr ''a''], PList [], PList [PStr ''b'', PStr ''c'']],
          extended_args = []\<rparr>"
  have h1: "stack ?vs = [PList [PStr ''k'']] @ map PList [[PStr ''a''], [], [PStr ''b'', PStr ''c'']]"
    by simp
  have h2: "list_all is_slot (map PList [[PStr ''a''], [], [PStr ''b'', PStr ''c'']])"
    by (simp add: is_slot_def is_label_def)
  show ?thesis
    using merge_n_into_one [of ?vs "[PList [PStr ''k'']]" "[[PStr ''a''], [], [PStr ''b'', PStr ''c'']]"]
      h1 h2
    by simp
qed

text \<open>
  Claim C8. After any sequence of instructions processed from the initial state, whether
  the caller stops at the first exception (\<open>emit_mutations\<close>) or goes on after each one
  (\<open>feed\<close>), every element of the stack is a list of labels: none is a bare string or
  the placeholder, and the placeholder is in no slot. Pushing the placeholder appends an
  empty slot.
\<close>

theorem slots_are_label_lists:
  "stack_inv (feed is ValueStack_init) \<and>
   stack_inv (snd (emit_mutations is ValueStack_init)) \<and>
   (\<forall>s \<in> set (stack (feed is ValueStack_init)).
      s \<noteq> placeholder \<and> (\<exists>xs. s = PList xs \<and> placeholder \<notin> set xs \<and> list_all is_label xs)) \<and>
   push placeholder vs = (Inr (), vs\<lparr>stack := stack vs @ [PList []]\<rparr>)"
proof -
  have a: "stack_inv (feed is ValueStack_init)" by (rule feed_inv [OF init_inv])
  have b: "stack_inv (snd (emit_mutations is ValueStack_init))"
    by (rule emit_mutations_inv [OF init_inv])
  have c: "\<forall>s \<in> set (stack (feed is ValueStack_init)).
      s \<noteq> placeholder \<and> (\<exists>xs. s = PList xs \<and> placeholder \<notin> set xs \<and> list_all is_label xs)"
  proof
    fix s assume "s \<in> set (stack (feed is ValueStack_init))"
    with a have "is_slot s" by (simp add: stack_inv_def list_all_iff)
    then show "s \<noteq> placeholder \<and>
        (\<exists>xs. s = PList xs \<and> placeholder \<notin> set xs \<and> list_all is_label xs)"
      by (rule is_slot_unfold)
  qed
  have d: "push placeholder vs = (Inr (), vs\<lparr>stack := stack vs @ [PList []]\<rparr>)"
    by (simp add: push_eq placeholder_def)
  from a b c d show ?thesis by blast
qed

theorem slots_are_label_lists_witness:
  "stack (feed [mk_instr ''LOAD_CONST'' (Some 0) ''1'', mk_instr ''LOAD_NAME'' (Some 0) ''a'']
       ValueStack_init) = [PList [], PList [PStr ''a'']] \<and>
   stack_inv (feed [mk_instr ''LOAD_CONST'' (Some 0) ''1'', mk_instr ''LOAD_NAME'' (Some 0) ''a'']
       ValueStack_init) \<and>
   PList [] \<noteq> placeholder \<and> PList [PStr ''a''] \<noteq> placeholder \<and>
   placeholder \<notin> set [PStr ''a''] \<and> list_all is_label [PStr ''a'']"
proof -
  let ?is = "[mk_instr ''LOAD_CONST'' (Some 0) ''1'', mk_instr ''LOAD_NAME'' (Some 0) ''a'']"
  have e: "stack (feed ?is ValueStack_init) = [PList [], PList [PStr ''a'']]"
    by (simp add: emit_LOAD_NAME dispatch_registered handler_methods_def mk_instr_def
        LOAD_CONST_handler_def py_defs push_eq placeholder_def ValueStack_init_def)
  show ?thesis
    using slots_are_label_lists [of ?is ValueStack_init] e by simp
qed

text \<open>
  Claim C9. Processing a \<^verbatim>\<open>STORE_ATTR\<close> instruction leaves the state, and so the depth and
  every slot of the stack, as it was, whether it returns or raises. When the top slot holds
  the one label \<open>t\<close> and the slot under it holds the labels \<open>src\<close>, it returns the mutation
  with target \<open>t\<close> and the set of \<open>src\<close> as sources, read from those two slots.
\<close>

theorem store_attr_keeps_stack:
  "opname instr = ''STORE_ATTR'' \<Longrightarrow>
   snd (emit_mutation instr vs) = vs \<and>
   (stack vs = rest @ [PList src, PList [t]] \<and> \<not> list_ex isinstance_list src \<longrightarrow>
      emit_mutation instr vs = (Inr (Some \<lparr>target = t, sources = set src\<rparr>), vs))"
  using STORE_ATTR_ok [of vs rest src t instr]
  by (simp add: dispatch_STORE_ATTR STORE_ATTR_state)

theorem store_attr_keeps_stack_witness:
  "opname (mk_instr ''STORE_ATTR'' (Some 2) ''y'') = ''STORE_ATTR'' \<and>
   stack \<lparr>stack = [PList [], PList [PStr ''a'']], extended_args = []\<rparr>
     = [] @ [PList [], PList [PStr ''a'']] \<and>
   \<not> list_ex isinstance_list [] \<and>
   emit_mutation (mk_instr ''STORE_ATTR'' (Some 2) ''y'')
     \<lparr>stack = [PList [], PList [PStr ''a'']], extended_args = []\<rparr>
   = (Inr (Some \<lparr>target = PStr ''a'', sources = {}\<rparr>),
      \<lparr>stack = [PList [], PList [PStr ''a'']], extended_args = []\<rparr>)"
proof -
  let ?i = "mk_instr ''STORE_ATTR'' (Some 2) ''y''"
  let ?vs = "\<lparr>stack = [PList [], PList [PStr ''a'']], extended_args = []\<rparr>"
  have h1: "opname ?i = ''STORE_ATTR''" by (simp add: mk_instr_def)
  have h2: "stack ?vs = [] @ [PList [], PList [PStr ''a'']]" by simp
  have h3: "\<not> list_ex isinstance_list []" by simp
  show ?thesis
    using store_attr_keeps_stack [OF h1, of ?vs "[]" "[]" "PStr ''a''"] h1 h2 h3 by simp
qed

text \<open>
  Claim C10. When two or more extended arguments are stored, processing \<^verbatim>\<open>UNPACK_EX\<close>
  fails with \<open>AssertionError\<close> and spreads nothing: the stack and the stored arguments
  stay as they were.
\<close>

theorem unpack_ex_requires_single_pending:
  "opname instr = ''UNPACK_EX'' \<Longrightarrow> 2 \<le> length (extended_args vs) \<Longrightarrow>
   emit_mutation instr vs = (Inl AssertionError, vs)"
  by (simp add: dispatch_UNPACK_EX UNPACK_EX_assert)

theorem unpack_ex_requires_single_pending_witness:
  "opname (mk_instr ''UNPACK_EX'' (Some 0) '''') = ''UNPACK_EX'' \<and>
   2 \<le> length (extended_args \<lparr>stack = [PList [PStr ''t'']], extended_args = [Some 0, Some 3]\<rparr>) \<and>
   emit_mutation (mk_instr ''UNPACK_EX'' (Some 0) '''')
     \<lparr>stack = [PList [PStr ''t'']], extended_args = [Some 0, Some 3]\<rparr>
   = (Inl AssertionError, \<lparr>stack = [PList [PStr ''t'']], extended_args = [Some 0, Some 3]\<rparr>)"
proof -
  let ?i = "mk_instr ''UNPACK_EX'' (Some 0) ''''"
  let ?vs = "\<lparr>stack = [PList [PStr ''t'']], extended_args = [Some 0, Some 3]\<rparr>"
  have h1: "opname ?i = ''UNPACK_EX''" by (simp add: mk_instr_def)
  have h2: "2 \<le> length (extended_args ?vs)" by simp
  show ?thesis
    using unpack_ex_requires_single_pending [OF h1 h2] h1 h2 by simp
qed

end
